theory Spec2Isabelle
  imports Complex_Main "HOL-Library.Sublist"
begin

section \<open>JavaScript values used by \<open>ai-service-factory.js\<close>\<close>

text \<open>
  \<open>process.env\<close> is a dictionary from variable names to strings; a variable that is not
  set reads as \<open>undefined\<close>, modelled by \<open>None\<close>.
\<close>

type_synonym env = "string \<rightharpoonup> string"

text \<open>
  Truthiness of a value of type \<open>string | undefined\<close>: \<open>undefined\<close> and the empty string
  are falsy, every other string is truthy.
\<close>

definition truthy :: "string option \<Rightarrow> bool" where
  "truthy v = (case v of None \<Rightarrow> False | Some s \<Rightarrow> s \<noteq> [])"

text \<open>\<open>a || b\<close> on two optional strings.\<close>

definition js_or :: "string option \<Rightarrow> string option \<Rightarrow> string option" where
  "js_or a b = (if truthy a then a else b)"

text \<open>\<open>a || d\<close> where \<open>d\<close> is a string literal of the source.\<close>

definition or_default :: "string option \<Rightarrow> string \<Rightarrow> string" where
  "or_default a d = (case a of None \<Rightarrow> d | Some s \<Rightarrow> if s = [] then d else s)"

text \<open>\<open>s.includes(sub)\<close>: \<open>sub\<close> occurs in \<open>s\<close> as a contiguous run of characters.\<close>

fun str_includes :: "string \<Rightarrow> string \<Rightarrow> bool" where
  "str_includes [] sub = (sub = [])"
| "str_includes (c # cs) sub = (prefix sub (c # cs) \<or> str_includes cs sub)"

section \<open>Data model\<close>

text \<open>
  \<open>AIProvider\<close> is the TypeScript type \<open>'anthropic' | 'openai'\<close>; at run time it is a
  string, and \<open>getConfigFromEnv\<close> casts an arbitrary environment value to it, so the
  model keeps it a string. \<open>known_providers\<close> lists the two variants of the type in
  the order of its declaration.
\<close>

type_synonym AIProvider = string

definition known_providers :: "AIProvider list" where
  "known_providers = [''anthropic'', ''openai'']"

record AIConfig =
  provider :: AIProvider
  apiKey :: string
  baseURL :: "string option"
  model :: "string option"

text \<open>
  The errors the factory throws. Each one is \<open>new Error(message)\<close> in the source;
  \<open>error_message\<close> gives that message.
\<close>

datatype error =
    MissingCredential string
  | InvalidProvider string
  | UnsupportedProvider string

fun error_message :: "error \<Rightarrow> string" where
  "error_message (MissingCredential var) = var @ '' not configured''"
| "error_message (InvalidProvider p) = ''Invalid AI provider: '' @ p"
| "error_message (UnsupportedProvider p) = ''Unsupported AI provider: '' @ p"

fun is_missing_credential :: "error + 'a \<Rightarrow> bool" where
  "is_missing_credential (Inl (MissingCredential var)) = True"
| "is_missing_credential r = False"

fun succeeds :: "'e + 'a \<Rightarrow> bool" where
  "succeeds (Inr x) = True"
| "succeeds (Inl e) = False"

text \<open>The options object handed to a vendor SDK constructor.\<close>

record client =
  client_apiKey :: string
  client_baseURL :: "string option"

text \<open>
  The two classes implementing \<open>AIService\<close>. Their fields are the SDK client and the
  model name bound by the constructor; the \<open>provider\<close> field is a constant of each class.
\<close>

datatype service =
    AnthropicService client string
  | OpenAIService client string

fun service_provider :: "service \<Rightarrow> AIProvider" where
  "service_provider (AnthropicService c m) = ''anthropic''"
| "service_provider (OpenAIService c m) = ''openai''"

fun service_model :: "service \<Rightarrow> string" where
  "service_model (AnthropicService c m) = m"
| "service_model (OpenAIService c m) = m"

definition new_AnthropicService :: "AIConfig \<Rightarrow> service" where
  "new_AnthropicService config =
     AnthropicService \<lparr>client_apiKey = apiKey config, client_baseURL = baseURL config\<rparr>
       (or_default (model config) ''claude-sonnet-4-20250514'')"

definition new_OpenAIService :: "AIConfig \<Rightarrow> service" where
  "new_OpenAIService config =
     OpenAIService \<lparr>client_apiKey = apiKey config, client_baseURL = baseURL config\<rparr>
       (or_default (model config) ''gpt-4o'')"

section \<open>Vendor SDKs as simulated transports\<close>

text \<open>
  The SDKs are black boxes reached over the network. A value thrown (or a promise
  rejected) by an SDK is read by the adapters only through its \<open>message\<close> property.
\<close>

datatype thrown = Thrown (thrown_message: "string option")

text \<open>
  A streaming call either fails before the stream is open, or yields its chunks in
  order and then closes normally or fails.
\<close>

datatype ending = Closed | Failed thrown

datatype 'c transport = OpenFailed thrown | Opened "'c list" ending

text \<open>
  Anthropic stream events: \<open>content_block_delta\<close> carries a delta, which is a
  \<open>text_delta\<close> with its text or a delta of another type; every other event has
  another \<open>type\<close>.
\<close>

datatype a_delta = TextDelta string | OtherDelta string

datatype a_chunk = ContentBlockDelta a_delta | OtherEvent string

text \<open>OpenAI stream chunks: \<open>choices[i].delta.content\<close>, each level optional.\<close>

datatype o_delta = Delta (delta_content: "string option")

datatype o_choice = Choice (choice_delta: "o_delta option")

datatype o_chunk = Chunk (chunk_choices: "o_choice list")

text \<open>Request bodies: the content of a message is a string or a list of parts.\<close>

record a_source =
  source_type :: string
  media_type :: string
  data :: string

datatype a_block = AText string | AImage a_source

datatype a_content = AString string | ABlocks "a_block list"

record anthropic_params =
  a_model :: string
  a_max_tokens :: int
  a_temperature :: rat
  a_messages :: "(string \<times> a_content) list"
  a_system :: "string option"

datatype o_part = OText string | OImageUrl string

datatype o_content = OString string | OParts "o_part list"

record openai_params =
  o_model :: string
  o_messages :: "(string \<times> o_content) list"
  o_max_tokens :: int
  o_temperature :: rat
  o_stream :: bool

text \<open>Responses of the non-streaming calls.\<close>

datatype a_resp_block = RText string | ROther string

record a_response =
  resp_content :: "a_resp_block list"

datatype o_message = Message (message_content: "string option")

datatype o_resp_choice = RChoice (choice_message: "o_message option")

record o_response =
  resp_choices :: "o_resp_choice list"

text \<open>The behaviour of each vendor, as the adapter's client sees it.\<close>

record anthropic_sdk =
  messages_stream :: "anthropic_params \<Rightarrow> a_chunk transport"
  messages_create :: "anthropic_params \<Rightarrow> thrown + a_response"

record openai_sdk =
  completions_stream :: "openai_params \<Rightarrow> o_chunk transport"
  completions_create :: "openai_params \<Rightarrow> thrown + o_response"

record vendors =
  anthropic :: anthropic_sdk
  openai :: openai_sdk

datatype net_call = ACall anthropic_params | OCall openai_params

datatype log_entry = Info string | ErrorEntry string thrown

text \<open>
  What the code can touch: the process environment, the entries written to the logger,
  and the requests sent to a vendor, in order.
\<close>

record world =
  w_env :: env
  w_log :: "log_entry list"
  w_net :: "net_call list"

section \<open>\<open>streamAnalysis\<close>\<close>

datatype StreamChunk =
    Progress string string
  | Content string
  | StreamError string
  | Done

fun a_text_delta :: "a_chunk \<Rightarrow> string option" where
  "a_text_delta (ContentBlockDelta (TextDelta t)) = Some t"
| "a_text_delta (ContentBlockDelta (OtherDelta ty)) = None"
| "a_text_delta (OtherEvent ty) = None"

text \<open>The \<open>for await\<close> loop of the Anthropic adapter: what it yields for the chunks read.\<close>

fun anthropic_yield :: "a_chunk list \<Rightarrow> StreamChunk list" where
  "anthropic_yield [] = []"
| "anthropic_yield (chunk # rest) =
     (case a_text_delta chunk of
        Some t \<Rightarrow> Content t # anthropic_yield rest
      | None \<Rightarrow> anthropic_yield rest)"

text \<open>\<open>chunk.choices[0]?.delta?.content\<close>\<close>

definition o_chunk_content :: "o_chunk \<Rightarrow> string option" where
  "o_chunk_content chunk =
     (case chunk_choices chunk of
        [] \<Rightarrow> None
      | c # cs \<Rightarrow> (case choice_delta c of None \<Rightarrow> None | Some d \<Rightarrow> delta_content d))"

text \<open>The loop of the OpenAI adapter; \<open>if (content)\<close> is the truthiness test.\<close>

fun openai_yield :: "o_chunk list \<Rightarrow> StreamChunk list" where
  "openai_yield [] = []"
| "openai_yield (chunk # rest) =
     (case o_chunk_content chunk of
        None \<Rightarrow> openai_yield rest
      | Some content \<Rightarrow>
          if content = [] then openai_yield rest
          else Content content # openai_yield rest)"

definition anthropic_stream_params :: "string \<Rightarrow> string \<Rightarrow> string option \<Rightarrow> anthropic_params" where
  "anthropic_stream_params m prompt systemPrompt =
     \<lparr>a_model = m, a_max_tokens = 16000, a_temperature = 1 / 10,
      a_messages = [(''user'', AString prompt)], a_system = systemPrompt\<rparr>"

definition openai_stream_params :: "string \<Rightarrow> string \<Rightarrow> string option \<Rightarrow> openai_params" where
  "openai_stream_params m prompt systemPrompt =
     \<lparr>o_model = m,
      o_messages =
        (case systemPrompt of
           None \<Rightarrow> []
         | Some sp \<Rightarrow> if sp = [] then [] else [(''system'', OString sp)]) @
        [(''user'', OString prompt)],
      o_max_tokens = 16000, o_temperature = 1 / 10, o_stream = True\<rparr>"

text \<open>
  The body of the generator, consumed to its end: the events yielded, and the world
  after it. The \<open>catch\<close> block logs the error and yields one \<open>error\<close> event; it is
  reached from a failure to open the stream and from a failure while reading it.
\<close>

definition catch_stream :: "string \<Rightarrow> string \<Rightarrow> thrown \<Rightarrow> world \<Rightarrow> StreamChunk list \<times> world" where
  "catch_stream label fallback err w =
     ([StreamError (or_default (thrown_message err) fallback)],
      w\<lparr>w_log := w_log w @ [ErrorEntry label err]\<rparr>)"

definition run_stream ::
  "('c list \<Rightarrow> StreamChunk list) \<Rightarrow> string \<Rightarrow> string \<Rightarrow> 'c transport \<Rightarrow> world
     \<Rightarrow> StreamChunk list \<times> world" where
  "run_stream yield label fallback t w =
     (case t of
        OpenFailed err \<Rightarrow> catch_stream label fallback err w
      | Opened chunks end \<Rightarrow>
          (case end of
             Closed \<Rightarrow> (yield chunks @ [Done], w)
           | Failed err \<Rightarrow>
               (let (evs, w') = catch_stream label fallback err w
                in (yield chunks @ evs, w'))))"

fun streamAnalysis ::
  "vendors \<Rightarrow> service \<Rightarrow> string \<Rightarrow> string option \<Rightarrow> world \<Rightarrow> StreamChunk list \<times> world" where
  "streamAnalysis v (AnthropicService c m) prompt systemPrompt w =
     (let params = anthropic_stream_params m prompt systemPrompt
      in run_stream anthropic_yield ''Anthropic streaming error:'' ''Anthropic API error''
           (messages_stream (anthropic v) params)
           (w\<lparr>w_net := w_net w @ [ACall params]\<rparr>))"
| "streamAnalysis v (OpenAIService c m) prompt systemPrompt w =
     (let params = openai_stream_params m prompt systemPrompt
      in run_stream openai_yield ''OpenAI streaming error:'' ''OpenAI API error''
           (completions_stream (openai v) params)
           (w\<lparr>w_net := w_net w @ [OCall params]\<rparr>))"

text \<open>
  The chunks a service's streaming request is answered with, and how the stream ends. A
  stream that fails to open is a stream that fails before its first chunk.
\<close>

datatype chunks = AChunks "a_chunk list" | OChunks "o_chunk list"

fun stream_reply :: "vendors \<Rightarrow> service \<Rightarrow> string \<Rightarrow> string option \<Rightarrow> chunks \<times> ending" where
  "stream_reply v (AnthropicService c m) prompt systemPrompt =
     (case messages_stream (anthropic v) (anthropic_stream_params m prompt systemPrompt) of
        OpenFailed err \<Rightarrow> (AChunks [], Failed err)
      | Opened cs end \<Rightarrow> (AChunks cs, end))"
| "stream_reply v (OpenAIService c m) prompt systemPrompt =
     (case completions_stream (openai v) (openai_stream_params m prompt systemPrompt) of
        OpenFailed err \<Rightarrow> (OChunks [], Failed err)
      | Opened cs end \<Rightarrow> (OChunks cs, end))"

text \<open>
  A content chunk is a chunk that carries a text delta: a \<open>content_block_delta\<close> with a
  \<open>text_delta\<close>, or a chunk whose first choice has a delta with a \<open>content\<close> string.
  \<open>chunk_texts\<close> lists the texts of the content chunks in emission order; the full
  response text is their concatenation.
\<close>

fun chunk_texts :: "chunks \<Rightarrow> string list" where
  "chunk_texts (AChunks cs) = List.map_filter a_text_delta cs"
| "chunk_texts (OChunks cs) = List.map_filter o_chunk_content cs"

definition full_text :: "chunks \<Rightarrow> string" where
  "full_text cs = concat (chunk_texts cs)"

text \<open>The texts for which an adapter yields a \<open>content\<close> event.\<close>

fun yielded_texts :: "chunks \<Rightarrow> string list" where
  "yielded_texts (AChunks cs) = chunk_texts (AChunks cs)"
| "yielded_texts (OChunks cs) = filter (\<lambda>t. t \<noteq> []) (chunk_texts (OChunks cs))"

section \<open>\<open>visionAnalysis\<close>\<close>

record image_data =
  base64Data :: string
  mediaType :: string

record VisionMessage =
  vm_type :: string
  vm_text :: "string option"
  vm_image :: "image_data option"

text \<open>\<open>options?.maxTokens || 4000\<close>: an absent value and \<open>0\<close> give the default.\<close>

definition max_tokens_or_default :: "int option \<Rightarrow> int" where
  "max_tokens_or_default maxTokens =
     (case maxTokens of None \<Rightarrow> 4000 | Some n \<Rightarrow> if n = 0 then 4000 else n)"

text \<open>
  The serialising loops. In the first branch \<open>msg.text\<close> is a non-empty string, which
  \<open>or_default (vm_text msg) []\<close> reads.
\<close>

fun anthropic_content :: "VisionMessage list \<Rightarrow> a_block list" where
  "anthropic_content [] = []"
| "anthropic_content (msg # rest) =
     (if vm_type msg = ''text'' \<and> truthy (vm_text msg) then
        AText (or_default (vm_text msg) []) # anthropic_content rest
      else if vm_type msg = ''image'' then
        (case vm_image msg of
           Some img \<Rightarrow>
             AImage \<lparr>source_type = ''base64'', media_type = mediaType img,
                     data = base64Data img\<rparr> # anthropic_content rest
         | None \<Rightarrow> anthropic_content rest)
      else anthropic_content rest)"

fun openai_content :: "VisionMessage list \<Rightarrow> o_part list" where
  "openai_content [] = []"
| "openai_content (msg # rest) =
     (if vm_type msg = ''text'' \<and> truthy (vm_text msg) then
        OText (or_default (vm_text msg) []) # openai_content rest
      else if vm_type msg = ''image'' then
        (case vm_image msg of
           Some img \<Rightarrow>
             OImageUrl (''data:'' @ mediaType img @ '';base64,'' @ base64Data img)
               # openai_content rest
         | None \<Rightarrow> openai_content rest)
      else openai_content rest)"

text \<open>
  What one fragment contributes to a request, stated fragment by fragment: a text
  fragment with a non-empty text gives one text part; an image fragment with an image
  object gives one image part, media type and payload copied; any other fragment gives
  nothing.
\<close>

definition anthropic_fragment :: "VisionMessage \<Rightarrow> a_block list" where
  "anthropic_fragment msg =
     (if vm_type msg = ''text'' then
        (case vm_text msg of
           None \<Rightarrow> []
         | Some t \<Rightarrow> if t = [] then [] else [AText t])
      else if vm_type msg = ''image'' then
        (case vm_image msg of
           None \<Rightarrow> []
         | Some img \<Rightarrow>
             [AImage \<lparr>source_type = ''base64'', media_type = mediaType img,
                      data = base64Data img\<rparr>])
      else [])"

definition openai_fragment :: "VisionMessage \<Rightarrow> o_part list" where
  "openai_fragment msg =
     (if vm_type msg = ''text'' then
        (case vm_text msg of
           None \<Rightarrow> []
         | Some t \<Rightarrow> if t = [] then [] else [OText t])
      else if vm_type msg = ''image'' then
        (case vm_image msg of
           None \<Rightarrow> []
         | Some img \<Rightarrow>
             [OImageUrl (''data:'' @ mediaType img @ '';base64,'' @ base64Data img)])
      else [])"

definition anthropic_vision_params :: "string \<Rightarrow> VisionMessage list \<Rightarrow> int option \<Rightarrow> anthropic_params" where
  "anthropic_vision_params m messages maxTokens =
     \<lparr>a_model = m, a_max_tokens = max_tokens_or_default maxTokens, a_temperature = 1 / 10,
      a_messages = [(''user'', ABlocks (anthropic_content messages))], a_system = None\<rparr>"

definition openai_vision_params :: "string \<Rightarrow> VisionMessage list \<Rightarrow> int option \<Rightarrow> openai_params" where
  "openai_vision_params m messages maxTokens =
     \<lparr>o_model = m, o_messages = [(''user'', OParts (openai_content messages))],
      o_max_tokens = max_tokens_or_default maxTokens, o_temperature = 1 / 10,
      o_stream = False\<rparr>"

text \<open>\<open>response.content[0]?.type === 'text' ? response.content[0].text : ''\<close>\<close>

definition anthropic_extract :: "a_response \<Rightarrow> string" where
  "anthropic_extract response =
     (case resp_content response of
        [] \<Rightarrow> []
      | RText t # bs \<Rightarrow> t
      | ROther ty # bs \<Rightarrow> [])"

text \<open>\<open>response.choices[0]?.message?.content || ''\<close>\<close>

definition openai_extract :: "o_response \<Rightarrow> string" where
  "openai_extract response =
     or_default
       (case resp_choices response of
          [] \<Rightarrow> None
        | c # cs \<Rightarrow> (case choice_message c of None \<Rightarrow> None | Some msg \<Rightarrow> message_content msg))
       []"

text \<open>
  The request an instance sends for a content sequence. The method has no statement
  between its entry and the construction of this request other than the loop that
  serialises the fragments.
\<close>

fun vision_request :: "service \<Rightarrow> VisionMessage list \<Rightarrow> int option \<Rightarrow> net_call" where
  "vision_request (AnthropicService c m) messages maxTokens =
     ACall (anthropic_vision_params m messages maxTokens)"
| "vision_request (OpenAIService c m) messages maxTokens =
     OCall (openai_vision_params m messages maxTokens)"

text \<open>
  The awaited result (\<open>Inl\<close>: the promise is rejected with what the SDK threw) and the
  world after the call.
\<close>

fun visionAnalysis ::
  "vendors \<Rightarrow> service \<Rightarrow> VisionMessage list \<Rightarrow> int option \<Rightarrow> world \<Rightarrow> (thrown + string) \<times> world" where
  "visionAnalysis v (AnthropicService c m) messages maxTokens w =
     (let params = anthropic_vision_params m messages maxTokens;
          w' = w\<lparr>w_net := w_net w @ [ACall params]\<rparr>
      in case messages_create (anthropic v) params of
           Inl err \<Rightarrow> (Inl err, w')
         | Inr response \<Rightarrow> (Inr (anthropic_extract response), w'))"
| "visionAnalysis v (OpenAIService c m) messages maxTokens w =
     (let params = openai_vision_params m messages maxTokens;
          w' = w\<lparr>w_net := w_net w @ [OCall params]\<rparr>
      in case completions_create (openai v) params of
           Inl err \<Rightarrow> (Inl err, w')
         | Inr response \<Rightarrow> (Inr (openai_extract response), w'))"

text \<open>The response a service's vision request is answered with.\<close>

datatype response = AResponse a_response | OResponse o_response

fun vision_reply :: "vendors \<Rightarrow> service \<Rightarrow> VisionMessage list \<Rightarrow> int option \<Rightarrow> thrown + response" where
  "vision_reply v (AnthropicService c m) messages maxTokens =
     map_sum id AResponse (messages_create (anthropic v) (anthropic_vision_params m messages maxTokens))"
| "vision_reply v (OpenAIService c m) messages maxTokens =
     map_sum id OResponse (completions_create (openai v) (openai_vision_params m messages maxTokens))"

text \<open>Whether a response has a text-typed content block anywhere.\<close>

fun is_text_block :: "a_resp_block \<Rightarrow> bool" where
  "is_text_block (RText t) = True"
| "is_text_block (ROther ty) = False"

definition choice_has_text :: "o_resp_choice \<Rightarrow> bool" where
  "choice_has_text c =
     (case choice_message c of
        None \<Rightarrow> False
      | Some msg \<Rightarrow> (case message_content msg of None \<Rightarrow> False | Some t \<Rightarrow> True))"

fun has_text_block :: "response \<Rightarrow> bool" where
  "has_text_block (AResponse r) = list_ex is_text_block (resp_content r)"
| "has_text_block (OResponse r) = list_ex choice_has_text (resp_choices r)"

text \<open>
  The image fragments of a content sequence, in order, and the well-formed ones: media
  type and payload are not empty, and the media type has no comma, the character that
  ends the header of a data URL.
\<close>

definition images_of :: "VisionMessage list \<Rightarrow> image_data list" where
  "images_of messages =
     List.map_filter (\<lambda>msg. if vm_type msg = ''image'' then vm_image msg else None) messages"

definition well_formed_image :: "image_data \<Rightarrow> bool" where
  "well_formed_image img =
     (mediaType img \<noteq> [] \<and> base64Data img \<noteq> [] \<and> CHR '','' \<notin> set (mediaType img))"

text \<open>
  Readers of the two documented image shapes. The Anthropic shape is a block of type
  \<open>image\<close> with a \<open>source\<close> of type \<open>base64\<close>. The OpenAI shape is a part of type
  \<open>image_url\<close> whose URL is \<open>data:<media type>;base64,<payload>\<close>: the header runs to
  the first comma and ends with \<open>;base64\<close>.
\<close>

fun decode_anthropic_block :: "a_block \<Rightarrow> image_data option" where
  "decode_anthropic_block (AImage src) =
     (if source_type src = ''base64''
      then Some \<lparr>base64Data = data src, mediaType = media_type src\<rparr> else None)"
| "decode_anthropic_block (AText t) = None"

definition decode_data_url :: "string \<Rightarrow> image_data option" where
  "decode_data_url url =
     (if prefix ''data:'' url then
        (let rest = drop 5 url;
             header = takeWhile (\<lambda>ch. ch \<noteq> CHR '','') rest
         in if length header < length rest \<and> suffix '';base64'' header
            then Some \<lparr>base64Data = drop (length header + 1) rest,
                       mediaType = take (length header - 7) header\<rparr>
            else None)
      else None)"

fun decode_openai_part :: "o_part \<Rightarrow> image_data option" where
  "decode_openai_part (OImageUrl url) = decode_data_url url"
| "decode_openai_part (OText t) = None"

fun decode_a_content :: "a_content \<Rightarrow> image_data list" where
  "decode_a_content (ABlocks bs) = List.map_filter decode_anthropic_block bs"
| "decode_a_content (AString s) = []"

fun decode_o_content :: "o_content \<Rightarrow> image_data list" where
  "decode_o_content (OParts ps) = List.map_filter decode_openai_part ps"
| "decode_o_content (OString s) = []"

fun decode_request_images :: "net_call \<Rightarrow> image_data list" where
  "decode_request_images (ACall params) = concat (map (\<lambda>(role, c). decode_a_content c) (a_messages params))"
| "decode_request_images (OCall params) = concat (map (\<lambda>(role, c). decode_o_content c) (o_messages params))"

section \<open>\<open>getModelInfo\<close>\<close>

record model_info =
  info_provider :: string
  info_model :: string
  supportsVision :: bool

fun getModelInfo :: "service \<Rightarrow> model_info" where
  "getModelInfo (AnthropicService c m) =
     \<lparr>info_provider = ''Anthropic Claude'', info_model = m, supportsVision = True\<rparr>"
| "getModelInfo (OpenAIService c m) =
     \<lparr>info_provider = ''OpenAI ChatGPT'', info_model = m,
      supportsVision = (str_includes m ''gpt-4'' \<or> m = ''gpt-4o'')\<rparr>"

text \<open>
  A method call on an instance, as state passing: the result and the instance after the
  call. \<open>getModelInfo\<close> assigns to no field.
\<close>

definition call_getModelInfo :: "service \<Rightarrow> model_info \<times> service" where
  "call_getModelInfo s = (getModelInfo s, s)"

section \<open>The factory\<close>

definition create :: "AIConfig \<Rightarrow> world \<Rightarrow> (error + service) \<times> world" where
  "create config w =
     (let w' = w\<lparr>w_log := w_log w @
                 [Info (''Creating AI service: '' @ provider config @ '' with model '' @
                        or_default (model config) ''default'')]\<rparr>
      in if provider config = ''anthropic'' then (Inr (new_AnthropicService config), w')
         else if provider config = ''openai'' then (Inr (new_OpenAIService config), w')
         else (Inl (UnsupportedProvider (provider config)), w'))"

definition getConfigFromEnv :: "env \<Rightarrow> AIProvider option \<Rightarrow> error + AIConfig" where
  "getConfigFromEnv e p =
     (let envProvider = or_default (js_or p (e ''AI_PROVIDER'')) ''anthropic''
      in if envProvider = ''anthropic'' then
           (case e ''ANTHROPIC_API_KEY'' of
              None \<Rightarrow> Inl (MissingCredential ''ANTHROPIC_API_KEY'')
            | Some k \<Rightarrow>
                if k = [] then Inl (MissingCredential ''ANTHROPIC_API_KEY'')
                else Inr \<lparr>provider = ''anthropic'', apiKey = k,
                          baseURL = e ''ANTHROPIC_BASE_URL'',
                          model = e ''ANTHROPIC_MODEL''\<rparr>)
         else if envProvider = ''openai'' then
           (case e ''OPENAI_API_KEY'' of
              None \<Rightarrow> Inl (MissingCredential ''OPENAI_API_KEY'')
            | Some k \<Rightarrow>
                if k = [] then Inl (MissingCredential ''OPENAI_API_KEY'')
                else Inr \<lparr>provider = ''openai'', apiKey = k,
                          baseURL = e ''OPENAI_BASE_URL'',
                          model = e ''OPENAI_MODEL''\<rparr>)
         else Inl (InvalidProvider envProvider))"

text \<open>
  \<open>isProviderConfigured\<close> wraps the call in \<open>try\<close>/\<open>catch\<close>: the \<open>Inl\<close> branch is the
  \<open>catch\<close> block. The result type keeps the error component so that "does not raise" is a
  statement about the value.
\<close>

definition isProviderConfigured :: "env \<Rightarrow> AIProvider \<Rightarrow> error + bool" where
  "isProviderConfigured e p =
     (case getConfigFromEnv e (Some p) of
        Inr config \<Rightarrow> Inr (apiKey config \<noteq> [])
      | Inl err \<Rightarrow> Inr False)"

definition getAvailableProviders :: "env \<Rightarrow> AIProvider list" where
  "getAvailableProviders e =
     (if truthy (e ''ANTHROPIC_API_KEY'') then [''anthropic''] else []) @
     (if truthy (e ''OPENAI_API_KEY'') then [''openai''] else [])"

text \<open>
  The static methods of \<open>AIServiceFactory\<close> as calls on the world; only \<open>create\<close>
  writes anything (a log line), none assigns to \<open>process.env\<close>.
\<close>

datatype factory_call =
    Create AIConfig
  | GetConfigFromEnv "AIProvider option"
  | IsProviderConfigured AIProvider
  | GetAvailableProviders

fun run_call :: "world \<Rightarrow> factory_call \<Rightarrow> world" where
  "run_call w (Create config) = snd (create config w)"
| "run_call w (GetConfigFromEnv p) = w"
| "run_call w (IsProviderConfigured p) = w"
| "run_call w GetAvailableProviders = w"

definition run_calls :: "world \<Rightarrow> factory_call list \<Rightarrow> world" where
  "run_calls w cs = foldl run_call w cs"

text \<open>
  The environment variable holding the credential of a provider identity; an identity
  outside the two known ones has none.
\<close>

definition credential_var :: "AIProvider \<Rightarrow> string option" where
  "credential_var p =
     (if p = ''anthropic'' then Some ''ANTHROPIC_API_KEY''
      else if p = ''openai'' then Some ''OPENAI_API_KEY''
      else None)"

definition credential_present :: "env \<Rightarrow> AIProvider \<Rightarrow> bool" where
  "credential_present e p =
     (case credential_var p of None \<Rightarrow> False | Some var \<Rightarrow> truthy (e var))"

text \<open>The identity \<open>getConfigFromEnv\<close> resolves, as its first line computes it.\<close>

definition resolved_provider :: "env \<Rightarrow> AIProvider option \<Rightarrow> AIProvider" where
  "resolved_provider e p = or_default (js_or p (e ''AI_PROVIDER'')) ''anthropic''"

text \<open>The environment variables holding the endpoint and model overrides of a provider.\<close>

definition endpoint_var :: "AIProvider \<Rightarrow> string" where
  "endpoint_var p = (if p = ''anthropic'' then ''ANTHROPIC_BASE_URL'' else ''OPENAI_BASE_URL'')"

definition model_var :: "AIProvider \<Rightarrow> string" where
  "model_var p = (if p = ''anthropic'' then ''ANTHROPIC_MODEL'' else ''OPENAI_MODEL'')"

section \<open>Concrete inputs\<close>

definition azure_env :: env where
  "azure_env = [''AI_PROVIDER'' \<mapsto> ''azure'', ''ANTHROPIC_API_KEY'' \<mapsto> ''sk-ant-1'']"

definition openai_env :: env where
  "openai_env = [''AI_PROVIDER'' \<mapsto> ''openai'', ''OPENAI_API_KEY'' \<mapsto> ''sk-1'',
                 ''OPENAI_MODEL'' \<mapsto> ''gpt-4-turbo'']"

definition start_world :: world where
  "start_world = \<lparr>w_env = openai_env, w_log = [], w_net = []\<rparr>"

definition demo_client :: client where
  "demo_client = \<lparr>client_apiKey = ''sk-1'', client_baseURL = None\<rparr>"

definition azure_config :: AIConfig where
  "azure_config = \<lparr>provider = ''azure'', apiKey = ''k'', baseURL = None, model = None\<rparr>"

definition openai_config :: AIConfig where
  "openai_config = \<lparr>provider = ''openai'', apiKey = ''sk-1'', baseURL = None, model = None\<rparr>"

definition o_text_chunk :: "string \<Rightarrow> o_chunk" where
  "o_text_chunk t = Chunk [Choice (Some (Delta (Some t)))]"

definition a_text_chunk :: "string \<Rightarrow> a_chunk" where
  "a_text_chunk t = ContentBlockDelta (TextDelta t)"

text \<open>
  A simulated vendor: every stream yields the given chunks and ends as given; every
  non-streaming call is answered with the given responses.
\<close>

definition sim_vendors ::
  "a_chunk list \<Rightarrow> o_chunk list \<Rightarrow> ending \<Rightarrow> a_response \<Rightarrow> o_response \<Rightarrow> vendors" where
  "sim_vendors acs ocs end aresp oresp =
     \<lparr>anthropic = \<lparr>messages_stream = (\<lambda>params. Opened acs end),
                   messages_create = (\<lambda>params. Inr aresp)\<rparr>,
      openai = \<lparr>completions_stream = (\<lambda>params. Opened ocs end),
                completions_create = (\<lambda>params. Inr oresp)\<rparr>\<rparr>"

definition a_answer :: "string \<Rightarrow> a_response" where
  "a_answer t = \<lparr>resp_content = [RText t]\<rparr>"

definition o_answer :: "string \<Rightarrow> o_response" where
  "o_answer t = \<lparr>resp_choices = [RChoice (Some (Message (Some t)))]\<rparr>"

definition stream_vendors :: "a_chunk list \<Rightarrow> o_chunk list \<Rightarrow> ending \<Rightarrow> vendors" where
  "stream_vendors acs ocs end = sim_vendors acs ocs end (a_answer ''ok'') (o_answer ''ok'')"

definition answer_vendors :: "a_response \<Rightarrow> o_response \<Rightarrow> vendors" where
  "answer_vendors aresp oresp = sim_vendors [] [] Closed aresp oresp"

definition text_fragment :: "string \<Rightarrow> VisionMessage" where
  "text_fragment t = \<lparr>vm_type = ''text'', vm_text = Some t, vm_image = None\<rparr>"

definition image_fragment :: "string \<Rightarrow> string \<Rightarrow> VisionMessage" where
  "image_fragment mt d =
     \<lparr>vm_type = ''image'', vm_text = None,
      vm_image = Some \<lparr>base64Data = d, mediaType = mt\<rparr>\<rparr>"

text \<open>
  A content sequence with fragments of every kind: an empty text, a text, an image whose
  media type and payload are empty, an image fragment without an image object, and a
  fragment of another type.
\<close>

definition mixed_fragments :: "VisionMessage list" where
  "mixed_fragments =
     [text_fragment '''', text_fragment ''what is this'', image_fragment '''' '''',
      \<lparr>vm_type = ''image'', vm_text = None, vm_image = None\<rparr>,
      \<lparr>vm_type = ''audio'', vm_text = Some ''x'', vm_image = None\<rparr>]"

lemmas concrete_defs =
  azure_env_def openai_env_def start_world_def demo_client_def azure_config_def
  openai_config_def o_text_chunk_def a_text_chunk_def sim_vendors_def a_answer_def
  o_answer_def stream_vendors_def answer_vendors_def text_fragment_def image_fragment_def
  mixed_fragments_def

section \<open>Auxiliary facts\<close>

lemma str_includes_sublist: "str_includes s sub \<longleftrightarrow> sublist sub s"
  by (induction s) (auto simp: sublist_Cons_right)

lemma run_call_env: "w_env (run_call w c) = w_env w"
  by (cases c) (simp_all add: create_def Let_def)

lemma run_calls_env: "w_env (run_calls w cs) = w_env w"
  unfolding run_calls_def by (induction cs arbitrary: w) (simp_all add: run_call_env)

lemma anthropic_yield_eq: "anthropic_yield cs = map Content (List.map_filter a_text_delta cs)"
  by (induction cs) (simp_all add: List.map_filter_simps split: option.splits)

lemma openai_yield_eq:
  "openai_yield cs = map Content (filter (\<lambda>t. t \<noteq> []) (List.map_filter o_chunk_content cs))"
  by (induction cs) (simp_all add: List.map_filter_simps split: option.splits)

lemma concat_filter_nonempty: "concat (filter (\<lambda>t. t \<noteq> []) ts) = concat ts"
  by (induction ts) simp_all

lemma filter_nonempty_id: "[] \<notin> set ts \<Longrightarrow> filter (\<lambda>t. t \<noteq> []) ts = ts"
  by (induction ts) auto

lemma anthropic_content_fragments:
  "anthropic_content msgs = concat (map anthropic_fragment msgs)"
  by (induction msgs)
     (auto simp: anthropic_fragment_def truthy_def or_default_def split: option.splits)

lemma openai_content_fragments:
  "openai_content msgs = concat (map openai_fragment msgs)"
  by (induction msgs)
     (auto simp: openai_fragment_def truthy_def or_default_def split: option.splits)

lemma takeWhile_header:
  assumes "CHR '','' \<notin> set mt"
  shows "takeWhile (\<lambda>ch. ch \<noteq> CHR '','') (mt @ '';base64,'' @ d) = mt @ '';base64''"
proof -
  have "takeWhile (\<lambda>ch. ch \<noteq> CHR '','') (mt @ rest) = mt @ takeWhile (\<lambda>ch. ch \<noteq> CHR '','') rest"
    for rest
    using assms by (induction mt) auto
  then show ?thesis by simp
qed

lemma decode_data_url_encode:
  assumes "CHR '','' \<notin> set mt"
  shows "decode_data_url (''data:'' @ mt @ '';base64,'' @ d) = Some \<lparr>base64Data = d, mediaType = mt\<rparr>"
proof -
  have p: "prefix ''data:'' (''data:'' @ mt @ '';base64,'' @ d)" by simp
  have r: "drop 5 (''data:'' @ mt @ '';base64,'' @ d) = mt @ '';base64,'' @ d" by simp
  have s: "suffix '';base64'' (mt @ '';base64'')" by (rule suffix_appendI) simp
  show ?thesis
    unfolding decode_data_url_def
    by (simp only: p r if_True Let_def takeWhile_header [OF assms]) (use s in simp)
qed

lemma decode_anthropic_content:
  "List.map_filter decode_anthropic_block (anthropic_content msgs) = images_of msgs"
  by (induction msgs) (auto simp: images_of_def List.map_filter_simps split: option.splits)

lemma decode_openai_content:
  assumes "\<forall>img \<in> set (images_of msgs). well_formed_image img"
  shows "List.map_filter decode_openai_part (openai_content msgs) = images_of msgs"
  using assms
proof (induction msgs)
  case Nil
  show ?case by (simp add: images_of_def List.map_filter_simps)
next
  case (Cons msg rest)
  have rest: "\<forall>img \<in> set (images_of rest). well_formed_image img"
    using Cons.prems
    by (auto simp: images_of_def List.map_filter_simps split: option.splits if_splits)
  note IH = Cons.IH [OF rest]
  show ?case
  proof (cases "vm_type msg = ''image''")
    case False
    with IH show ?thesis
      by (auto simp: images_of_def List.map_filter_simps)
  next
    case True
    show ?thesis
    proof (cases "vm_image msg")
      case None
      with True IH show ?thesis by (auto simp: images_of_def List.map_filter_simps)
    next
      case (Some img)
      with True Cons.prems have "well_formed_image img"
        by (auto simp: images_of_def List.map_filter_simps)
      then have "decode_data_url (''data:'' @ mediaType img @ '';base64,'' @ base64Data img) = Some img"
        using decode_data_url_encode [of "mediaType img" "base64Data img"]
        by (simp add: well_formed_image_def)
      with True Some IH show ?thesis
        by (auto simp: images_of_def List.map_filter_simps)
    qed
  qed
qed

section \<open>Streaming\<close>

text \<open>
  The count of C1 fails on the OpenAI adapter: a chunk whose delta carries the empty
  string is read by the loop and dropped by \<open>if (content)\<close>. Two content chunks
  \<open>""\<close> and \<open>"Ran"\<close> followed by a normal close give one \<open>content\<close> event.
\<close>

theorem streamAnalysis_count_counterexample:
  "stream_reply (stream_vendors [] [o_text_chunk '''', o_text_chunk ''Ran''] Closed)
       (OpenAIService demo_client ''gpt-4o'') ''hi'' None
     = (OChunks [o_text_chunk '''', o_text_chunk ''Ran''], Closed)
   \<and> chunk_texts (OChunks [o_text_chunk '''', o_text_chunk ''Ran'']) = ['''', ''Ran'']
   \<and> fst (streamAnalysis (stream_vendors [] [o_text_chunk '''', o_text_chunk ''Ran''] Closed)
          (OpenAIService demo_client ''gpt-4o'') ''hi'' None start_world)
     = [Content ''Ran'', Done]"
  by (simp add: concrete_defs openai_stream_params_def run_stream_def o_chunk_content_def
        List.map_filter_simps)

text \<open>
  Claim C1, amended. For every prompt and optional system prompt, when the stream that
  answers the adapter's request yields its chunks and closes normally, \<open>streamAnalysis\<close>
  yields one \<open>content\<close> event for each content chunk the adapter's guard accepts, in
  emission order, then exactly one \<open>done\<close> event and nothing else. The Anthropic adapter
  accepts every text delta; the OpenAI adapter accepts the deltas whose content is not
  empty. On both adapters the yielded texts concatenate to the full response text, and
  the number of \<open>content\<close> events is the number of content chunks whenever no content
  chunk carries the empty string.
\<close>

theorem streamAnalysis_closed:
  assumes "stream_reply v s prompt systemPrompt = (cs, Closed)"
  shows "fst (streamAnalysis v s prompt systemPrompt w) = map Content (yielded_texts cs) @ [Done]
    \<and> concat (yielded_texts cs) = full_text cs
    \<and> ((\<exists>acs. cs = AChunks acs) \<or> [] \<notin> set (chunk_texts cs)
         \<longrightarrow> yielded_texts cs = chunk_texts cs)"
proof (cases s)
  case (AnthropicService c m)
  with assms show ?thesis
    by (auto simp: run_stream_def anthropic_yield_eq full_text_def Let_def
          split: transport.splits ending.splits)
next
  case (OpenAIService c m)
  with assms show ?thesis
    by (auto simp: run_stream_def openai_yield_eq full_text_def Let_def
          concat_filter_nonempty filter_nonempty_id
          split: transport.splits ending.splits)
qed

theorem streamAnalysis_closed_witness:
  "fst (streamAnalysis
          (stream_vendors [a_text_chunk ''Ran'', a_text_chunk ''som'', a_text_chunk ''ware''] [] Closed)
          (AnthropicService demo_client ''claude-sonnet-4-20250514'') ''hi'' (Some ''be brief'')
          start_world)
     = [Content ''Ran'', Content ''som'', Content ''ware'', Done]
   \<and> full_text (AChunks [a_text_chunk ''Ran'', a_text_chunk ''som'', a_text_chunk ''ware''])
     = ''Ransomware''"
  using streamAnalysis_closed
    [of "stream_vendors [a_text_chunk ''Ran'', a_text_chunk ''som'', a_text_chunk ''ware''] [] Closed"
        "AnthropicService demo_client ''claude-sonnet-4-20250514''" "''hi''" "Some ''be brief''"
        "AChunks [a_text_chunk ''Ran'', a_text_chunk ''som'', a_text_chunk ''ware'']" start_world]
  by (simp add: concrete_defs full_text_def List.map_filter_simps)




section \<open>Vision\<close>

text \<open>
  C3 fails: neither adapter validates its input. With an empty content sequence the
  Anthropic adapter sends a request with an empty content list and returns the vendor's
  answer; with an image fragment whose media type and payload are empty the OpenAI
  adapter sends the URL \<open>data:;base64,\<close> and returns the vendor's answer.
\<close>

theorem visionAnalysis_validation_counterexample:
  "visionAnalysis (answer_vendors (a_answer ''ok'') (o_answer ''ok''))
       (AnthropicService demo_client ''claude-sonnet-4-20250514'') [] None start_world
     = (Inr ''ok'',
        start_world\<lparr>w_net :=
          [ACall \<lparr>a_model = ''claude-sonnet-4-20250514'', a_max_tokens = 4000,
                  a_temperature = 1 / 10, a_messages = [(''user'', ABlocks [])],
                  a_system = None\<rparr>]\<rparr>)
   \<and> visionAnalysis (answer_vendors (a_answer ''ok'') (o_answer ''ok''))
       (OpenAIService demo_client ''gpt-4o'') [image_fragment '''' ''''] None start_world
     = (Inr ''ok'',
        start_world\<lparr>w_net :=
          [OCall \<lparr>o_model = ''gpt-4o'',
                  o_messages = [(''user'', OParts [OImageUrl ''data:;base64,''])],
                  o_max_tokens = 4000, o_temperature = 1 / 10, o_stream = False\<rparr>]\<rparr>)"
  by (simp add: concrete_defs anthropic_vision_params_def openai_vision_params_def
        max_tokens_or_default_def anthropic_extract_def openai_extract_def or_default_def
        truthy_def)

text \<open>
  Claim C3, amended. \<open>visionAnalysis\<close> validates nothing. For every content sequence
  it sends exactly one request to the vendor, whose single user message carries, in
  order, one text part for each text fragment with a non-empty text and one image part
  for each image fragment that has an image object, media type and payload copied
  unchanged also when they are empty; every other fragment (a text fragment with an
  empty or missing text, an image fragment without an image object, a fragment of
  another type) is dropped, so an empty sequence gives an empty content list. The call
  fails exactly when the vendor call fails.
\<close>

theorem visionAnalysis_unvalidated:
  "w_net (snd (visionAnalysis v s msgs maxTokens w)) = w_net w @ [vision_request s msgs maxTokens]
   \<and> vision_request (AnthropicService c m) msgs maxTokens =
       ACall \<lparr>a_model = m, a_max_tokens = max_tokens_or_default maxTokens,
              a_temperature = 1 / 10,
              a_messages = [(''user'', ABlocks (concat (map anthropic_fragment msgs)))],
              a_system = None\<rparr>
   \<and> vision_request (OpenAIService c m) msgs maxTokens =
       OCall \<lparr>o_model = m,
              o_messages = [(''user'', OParts (concat (map openai_fragment msgs)))],
              o_max_tokens = max_tokens_or_default maxTokens, o_temperature = 1 / 10,
              o_stream = False\<rparr>
   \<and> anthropic_fragment \<lparr>vm_type = ''image'', vm_text = t, vm_image = Some img\<rparr> =
       [AImage \<lparr>source_type = ''base64'', media_type = mediaType img, data = base64Data img\<rparr>]
   \<and> openai_fragment \<lparr>vm_type = ''image'', vm_text = t, vm_image = Some img\<rparr> =
       [OImageUrl (''data:'' @ mediaType img @ '';base64,'' @ base64Data img)]
   \<and> (succeeds (fst (visionAnalysis v s msgs maxTokens w))
        \<longleftrightarrow> succeeds (vision_reply v s msgs maxTokens))"
proof -
  have sent: "w_net (snd (visionAnalysis v s msgs maxTokens w))
      = w_net w @ [vision_request s msgs maxTokens]"
    by (cases s) (auto simp: Let_def split: sum.splits)
  have fails: "succeeds (fst (visionAnalysis v s msgs maxTokens w))
      \<longleftrightarrow> succeeds (vision_reply v s msgs maxTokens)"
    by (cases s) (auto simp: Let_def split: sum.splits)
  have a_req: "vision_request (AnthropicService c m) msgs maxTokens =
       ACall \<lparr>a_model = m, a_max_tokens = max_tokens_or_default maxTokens,
              a_temperature = 1 / 10,
              a_messages = [(''user'', ABlocks (concat (map anthropic_fragment msgs)))],
              a_system = None\<rparr>"
    by (simp add: anthropic_vision_params_def anthropic_content_fragments)
  have o_req: "vision_request (OpenAIService c m) msgs maxTokens =
       OCall \<lparr>o_model = m,
              o_messages = [(''user'', OParts (concat (map openai_fragment msgs)))],
              o_max_tokens = max_tokens_or_default maxTokens, o_temperature = 1 / 10,
              o_stream = False\<rparr>"
    by (simp add: openai_vision_params_def openai_content_fragments)
  have a_img: "anthropic_fragment \<lparr>vm_type = ''image'', vm_text = t, vm_image = Some img\<rparr> =
       [AImage \<lparr>source_type = ''base64'', media_type = mediaType img, data = base64Data img\<rparr>]"
    by (simp add: anthropic_fragment_def)
  have o_img: "openai_fragment \<lparr>vm_type = ''image'', vm_text = t, vm_image = Some img\<rparr> =
       [OImageUrl (''data:'' @ mediaType img @ '';base64,'' @ base64Data img)]"
    by (simp add: openai_fragment_def)
  from sent a_req o_req a_img o_img fails show ?thesis by blast
qed

theorem visionAnalysis_unvalidated_witness:
  "w_net (snd (visionAnalysis (answer_vendors (a_answer ''ok'') (o_answer ''ok''))
       (OpenAIService demo_client ''gpt-4o'') mixed_fragments None start_world))
     = [OCall \<lparr>o_model = ''gpt-4o'',
               o_messages = [(''user'', OParts [OText ''what is this'',
                                OImageUrl ''data:;base64,''])],
               o_max_tokens = 4000, o_temperature = 1 / 10, o_stream = False\<rparr>]
   \<and> w_net (snd (visionAnalysis (answer_vendors (a_answer ''ok'') (o_answer ''ok''))
       (AnthropicService demo_client ''claude-sonnet-4-20250514'') mixed_fragments None
       start_world))
     = [ACall \<lparr>a_model = ''claude-sonnet-4-20250514'', a_max_tokens = 4000,
               a_temperature = 1 / 10,
               a_messages = [(''user'', ABlocks [AText ''what is this'',
                                AImage \<lparr>source_type = ''base64'', media_type = '''',
                                        data = ''''\<rparr>])],
               a_system = None\<rparr>]
   \<and> vision_request (OpenAIService demo_client ''gpt-4o'') [] None
     = OCall \<lparr>o_model = ''gpt-4o'', o_messages = [(''user'', OParts [])],
              o_max_tokens = 4000, o_temperature = 1 / 10, o_stream = False\<rparr>
   \<and> succeeds (fst (visionAnalysis (answer_vendors (a_answer ''ok'') (o_answer ''ok''))
       (OpenAIService demo_client ''gpt-4o'') mixed_fragments None start_world))"
  using visionAnalysis_unvalidated
    [of "answer_vendors (a_answer ''ok'') (o_answer ''ok'')" "OpenAIService demo_client ''gpt-4o''"
        mixed_fragments None start_world demo_client "''gpt-4o''"]
    visionAnalysis_unvalidated
    [of "answer_vendors (a_answer ''ok'') (o_answer ''ok'')"
        "AnthropicService demo_client ''claude-sonnet-4-20250514''"
        mixed_fragments None start_world demo_client "''claude-sonnet-4-20250514''"]
    visionAnalysis_unvalidated
    [of "answer_vendors (a_answer ''ok'') (o_answer ''ok'')" "OpenAIService demo_client ''gpt-4o''"
        "[]" None start_world demo_client "''gpt-4o''"]
  by (simp add: concrete_defs anthropic_fragment_def openai_fragment_def
        max_tokens_or_default_def)

text \<open>
  Claim C8. For every content sequence whose image fragments are well formed, the
  request \<open>visionAnalysis\<close> sends carries each image in the vendor's shape (Anthropic: a
  block with a \<open>source\<close> of type \<open>base64\<close>, media type and payload in fields of their
  own; OpenAI: a data URL), and reading the images back from the request gives the
  image fragments of the sequence, in order, payload and media type unchanged.
\<close>

theorem vision_request_roundtrip:
  assumes "\<forall>img \<in> set (images_of msgs). well_formed_image img"
  shows "w_net (snd (visionAnalysis v s msgs maxTokens w))
        = w_net w @ [vision_request s msgs maxTokens]
    \<and> decode_request_images (vision_request s msgs maxTokens) = images_of msgs"
proof (cases s)
  case (AnthropicService c m)
  then show ?thesis
    by (simp add: Let_def anthropic_vision_params_def decode_anthropic_content split: sum.splits)
next
  case (OpenAIService c m)
  then show ?thesis
    by (simp add: Let_def openai_vision_params_def decode_openai_content [OF assms]
          split: sum.splits)
qed

theorem vision_request_roundtrip_witness:
  "vision_request (OpenAIService demo_client ''gpt-4o'')
       [text_fragment ''what is this'', image_fragment ''image/png'' ''iVBORw0KGgo=''] None
     = OCall \<lparr>o_model = ''gpt-4o'',
              o_messages = [(''user'', OParts [OText ''what is this'',
                               OImageUrl ''data:image/png;base64,iVBORw0KGgo=''])],
              o_max_tokens = 4000, o_temperature = 1 / 10, o_stream = False\<rparr>
   \<and> decode_request_images
       (vision_request (OpenAIService demo_client ''gpt-4o'')
          [text_fragment ''what is this'', image_fragment ''image/png'' ''iVBORw0KGgo=''] None)
     = [\<lparr>base64Data = ''iVBORw0KGgo='', mediaType = ''image/png''\<rparr>]
   \<and> decode_request_images
       (vision_request (AnthropicService demo_client ''claude-sonnet-4-20250514'')
          [text_fragment ''what is this'', image_fragment ''image/png'' ''iVBORw0KGgo=''] None)
     = [\<lparr>base64Data = ''iVBORw0KGgo='', mediaType = ''image/png''\<rparr>]"
  using vision_request_roundtrip
    [of "[text_fragment ''what is this'', image_fragment ''image/png'' ''iVBORw0KGgo='']"
        "answer_vendors (a_answer ''ok'') (o_answer ''ok'')" "OpenAIService demo_client ''gpt-4o''"
        None start_world]
    vision_request_roundtrip
    [of "[text_fragment ''what is this'', image_fragment ''image/png'' ''iVBORw0KGgo='']"
        "answer_vendors (a_answer ''ok'') (o_answer ''ok'')"
        "AnthropicService demo_client ''claude-sonnet-4-20250514''" None start_world]
  by (simp add: concrete_defs images_of_def well_formed_image_def List.map_filter_simps
        openai_vision_params_def max_tokens_or_default_def truthy_def or_default_def)

text \<open>
  Claim C9. For every call of \<open>visionAnalysis\<close>, on either adapter, that the vendor
  answers with a response holding no text-typed content block, the call returns the
  empty string and does not fail.
\<close>

theorem visionAnalysis_no_text:
  assumes "vision_reply v s msgs maxTokens = Inr r" and "\<not> has_text_block r"
  shows "fst (visionAnalysis v s msgs maxTokens w) = Inr []"
proof (cases s)
  case (AnthropicService c m)
  with assms show ?thesis
    by (cases "messages_create (anthropic v) (anthropic_vision_params m msgs maxTokens)")
       (auto simp: Let_def anthropic_extract_def split: list.splits a_resp_block.splits)
next
  case (OpenAIService c m)
  with assms show ?thesis
    by (cases "completions_create (openai v) (openai_vision_params m msgs maxTokens)")
       (auto simp: Let_def openai_extract_def or_default_def choice_has_text_def
             split: list.splits option.splits)
qed

theorem visionAnalysis_no_text_witness:
  "fst (visionAnalysis
          (answer_vendors \<lparr>resp_content = [ROther ''tool_use'']\<rparr>
             \<lparr>resp_choices = [RChoice (Some (Message None))]\<rparr>)
          (AnthropicService demo_client ''claude-sonnet-4-20250514'')
          [text_fragment ''what is this''] None start_world) = Inr []
   \<and> fst (visionAnalysis
          (answer_vendors \<lparr>resp_content = [ROther ''tool_use'']\<rparr>
             \<lparr>resp_choices = [RChoice (Some (Message None))]\<rparr>)
          (OpenAIService demo_client ''gpt-4o'')
          [text_fragment ''what is this''] None start_world) = Inr []"
  using visionAnalysis_no_text
    [of "answer_vendors \<lparr>resp_content = [ROther ''tool_use'']\<rparr>
           \<lparr>resp_choices = [RChoice (Some (Message None))]\<rparr>"
        "AnthropicService demo_client ''claude-sonnet-4-20250514''"
        "[text_fragment ''what is this'']" None
        "AResponse \<lparr>resp_content = [ROther ''tool_use'']\<rparr>" start_world]
    visionAnalysis_no_text
    [of "answer_vendors \<lparr>resp_content = [ROther ''tool_use'']\<rparr>
           \<lparr>resp_choices = [RChoice (Some (Message None))]\<rparr>"
        "OpenAIService demo_client ''gpt-4o''"
        "[text_fragment ''what is this'']" None
        "OResponse \<lparr>resp_choices = [RChoice (Some (Message None))]\<rparr>" start_world]
  by (simp add: concrete_defs choice_has_text_def)

section \<open>The factory methods\<close>

text \<open>
  C4 fails where the resolved identity is not a known one: with \<open>AI_PROVIDER=azure\<close> and
  no identity supplied, \<open>getConfigFromEnv\<close> reaches its last statement and throws
  "Invalid AI provider", which is neither a missing-credential error nor a config.
\<close>

theorem getConfigFromEnv_outcome_counterexample:
  "resolved_provider azure_env None = ''azure''
   \<and> getConfigFromEnv azure_env None = Inl (InvalidProvider ''azure'')
   \<and> \<not> is_missing_credential (getConfigFromEnv azure_env None)
   \<and> \<not> succeeds (getConfigFromEnv azure_env None)"
  by (simp add: getConfigFromEnv_def resolved_provider_def azure_env_def js_or_def truthy_def
        or_default_def)

text \<open>
  Claim C4, amended. When no identity (or an empty one) is supplied, the identity is
  resolved from \<open>AI_PROVIDER\<close>, falling back to \<open>anthropic\<close> if that variable is unset
  or empty; a supplied non-empty identity is the resolved one. When the resolved
  identity is a known one, \<open>getConfigFromEnv\<close> fails with a missing-credential error
  exactly when that identity's credential is unset or empty, and otherwise returns the
  config of that identity with the credential and with endpoint and model equal to the
  per-identity override variables (absent when unset). When the resolved identity is
  not a known one, it fails with an invalid-provider error.
\<close>

theorem getConfigFromEnv_resolved:
  "(p = None \<or> p = Some [] \<longrightarrow>
      resolved_provider e p = or_default (e ''AI_PROVIDER'') ''anthropic'')
   \<and> (\<forall>q. p = Some q \<and> q \<noteq> [] \<longrightarrow> resolved_provider e p = q)
   \<and> (resolved_provider e p \<in> set known_providers \<longrightarrow>
         (is_missing_credential (getConfigFromEnv e p)
            \<longleftrightarrow> \<not> credential_present e (resolved_provider e p))
       \<and> (credential_present e (resolved_provider e p) \<longrightarrow>
            (\<exists>var. credential_var (resolved_provider e p) = Some var \<and>
               getConfigFromEnv e p =
                 Inr \<lparr>provider = resolved_provider e p, apiKey = or_default (e var) [],
                      baseURL = e (endpoint_var (resolved_provider e p)),
                      model = e (model_var (resolved_provider e p))\<rparr>)))
   \<and> (resolved_provider e p \<notin> set known_providers \<longrightarrow>
         getConfigFromEnv e p = Inl (InvalidProvider (resolved_provider e p)))"
  by (auto simp: resolved_provider_def getConfigFromEnv_def known_providers_def
        credential_present_def credential_var_def endpoint_var_def model_var_def
        truthy_def js_or_def or_default_def Let_def split: option.splits if_splits)

theorem getConfigFromEnv_resolved_witness:
  "resolved_provider openai_env None = ''openai''
   \<and> getConfigFromEnv openai_env None =
       Inr \<lparr>provider = ''openai'', apiKey = ''sk-1'', baseURL = None,
            model = Some ''gpt-4-turbo''\<rparr>
   \<and> getConfigFromEnv openai_env (Some ''anthropic'')
       = Inl (MissingCredential ''ANTHROPIC_API_KEY'')"
  using getConfigFromEnv_resolved [of None openai_env]
    getConfigFromEnv_resolved [of "Some ''anthropic''" openai_env]
  by (simp add: getConfigFromEnv_def resolved_provider_def openai_env_def js_or_def truthy_def
        or_default_def)

text \<open>
  The gloss of C5 fails for an identity outside the known ones: \<open>getConfigFromEnv\<close>
  called with \<open>azure\<close> raises no missing-credential error (it raises "Invalid AI
  provider"), and \<open>isProviderConfigured\<close> returns false.
\<close>

theorem isProviderConfigured_gloss_counterexample:
  "getConfigFromEnv azure_env (Some ''azure'') = Inl (InvalidProvider ''azure'')
   \<and> \<not> is_missing_credential (getConfigFromEnv azure_env (Some ''azure''))
   \<and> isProviderConfigured azure_env ''azure'' = Inr False"
  by (simp add: isProviderConfigured_def getConfigFromEnv_def azure_env_def js_or_def
        truthy_def or_default_def)

text \<open>
  Claim C5, amended. For every identity and every environment, \<open>isProviderConfigured\<close>
  returns a boolean and raises nothing, and the boolean is true exactly when
  \<open>getConfigFromEnv\<close> called with that identity succeeds. For a known identity that
  is exactly when it raises no missing-credential error; when the identity resolves to
  one outside the known ones, \<open>getConfigFromEnv\<close> raises an invalid-provider error, not
  a missing-credential one, and \<open>isProviderConfigured\<close> returns false.
\<close>

theorem isProviderConfigured_iff_succeeds:
  "isProviderConfigured e p = Inr (succeeds (getConfigFromEnv e (Some p)))
   \<and> (p \<in> set known_providers \<longrightarrow>
        succeeds (getConfigFromEnv e (Some p))
          = (\<not> is_missing_credential (getConfigFromEnv e (Some p))))
   \<and> (resolved_provider e (Some p) \<notin> set known_providers \<longrightarrow>
        getConfigFromEnv e (Some p) = Inl (InvalidProvider (resolved_provider e (Some p)))
        \<and> \<not> is_missing_credential (getConfigFromEnv e (Some p))
        \<and> isProviderConfigured e p = Inr False)"
  by (auto simp: isProviderConfigured_def getConfigFromEnv_def resolved_provider_def
        known_providers_def Let_def js_or_def truthy_def or_default_def
        split: option.splits sum.splits)

theorem isProviderConfigured_iff_succeeds_witness:
  "isProviderConfigured openai_env ''openai'' = Inr True
   \<and> isProviderConfigured openai_env ''anthropic'' = Inr False
   \<and> isProviderConfigured azure_env ''azure'' = Inr False"
  using isProviderConfigured_iff_succeeds [of openai_env "''openai''"]
    isProviderConfigured_iff_succeeds [of openai_env "''anthropic''"]
    isProviderConfigured_iff_succeeds [of azure_env "''azure''"]
  by (simp add: getConfigFromEnv_def openai_env_def azure_env_def js_or_def truthy_def
        or_default_def)

text \<open>
  Claim C6. For every environment, \<open>getAvailableProviders\<close> returns exactly the known
  identities whose credential is present (set and not empty), in the order of the
  known-identity list, \<open>anthropic\<close> before \<open>openai\<close>, whatever factory methods were
  called before it.
\<close>

theorem getAvailableProviders_exact:
  "getAvailableProviders (w_env (run_calls w cs))
     = filter (credential_present (w_env w)) known_providers"
  by (simp add: run_calls_env getAvailableProviders_def known_providers_def
        credential_present_def credential_var_def)

theorem getAvailableProviders_exact_witness:
  "getAvailableProviders
     (w_env (run_calls start_world
        [Create azure_config, IsProviderConfigured ''anthropic'', GetConfigFromEnv None]))
     = [''openai'']"
  using getAvailableProviders_exact
    [of start_world
        "[Create azure_config, IsProviderConfigured ''anthropic'', GetConfigFromEnv None]"]
  by (simp add: start_world_def openai_env_def known_providers_def credential_present_def
        credential_var_def truthy_def)

text \<open>
  C7 fails in "no partial side effects": \<open>logger.info\<close> runs before the \<open>switch\<close>, so
  a call that fails with an unsupported-provider error has already written "Creating AI
  service: azure with model default" to the logger.
\<close>

theorem create_log_counterexample:
  "fst (create azure_config start_world) = Inl (UnsupportedProvider ''azure'')
   \<and> snd (create azure_config start_world) =
       start_world\<lparr>w_log := [Info ''Creating AI service: azure with model default'']\<rparr>
   \<and> snd (create azure_config start_world) \<noteq> start_world"
proof -
  have res: "fst (create azure_config start_world) = Inl (UnsupportedProvider ''azure'')"
    by (simp add: create_def Let_def azure_config_def)
  have after: "snd (create azure_config start_world) =
       start_world\<lparr>w_log := [Info ''Creating AI service: azure with model default'']\<rparr>"
    by (simp add: create_def Let_def azure_config_def start_world_def or_default_def)
  have "w_log (snd (create azure_config start_world)) \<noteq> w_log start_world"
    by (simp add: after) (simp add: start_world_def)
  then have "snd (create azure_config start_world) \<noteq> start_world"
    by auto
  with res after show ?thesis by blast
qed

text \<open>
  Claim C7, amended. For every config whose identity is not a known one, \<open>create\<close>
  fails with an unsupported-provider error, after writing the one info entry that every
  call writes to the logger before it dispatches, and with no other effect; for every
  config with a known identity it returns the adapter of that identity, bound to the
  config's model or the vendor default. In both cases no request is sent to a vendor
  and the environment is untouched: the world after the call is the world before it plus
  that one logger entry.
\<close>

theorem create_dispatch:
  "(provider config \<notin> set known_providers \<longrightarrow>
      fst (create config w) = Inl (UnsupportedProvider (provider config)))
   \<and> (provider config \<in> set known_providers \<longrightarrow>
      (\<exists>s. fst (create config w) = Inr s \<and> service_provider s = provider config
           \<and> service_model s = or_default (model config)
                (if provider config = ''anthropic'' then ''claude-sonnet-4-20250514''
                 else ''gpt-4o'')))
   \<and> snd (create config w) =
       w\<lparr>w_log := w_log w @
           [Info (''Creating AI service: '' @ provider config @ '' with model '' @
                  or_default (model config) ''default'')]\<rparr>
   \<and> w_net (snd (create config w)) = w_net w
   \<and> w_env (snd (create config w)) = w_env w"
  by (auto simp: create_def Let_def known_providers_def new_AnthropicService_def
        new_OpenAIService_def)

theorem create_dispatch_witness:
  "fst (create azure_config start_world) = Inl (UnsupportedProvider ''azure'')
   \<and> w_net (snd (create azure_config start_world)) = []
   \<and> fst (create openai_config start_world) = Inr (OpenAIService demo_client ''gpt-4o'')
   \<and> w_net (snd (create openai_config start_world)) = []"
  using create_dispatch [of azure_config start_world]
    create_dispatch [of openai_config start_world]
  by (simp add: create_def Let_def start_world_def azure_config_def openai_config_def
        demo_client_def known_providers_def new_OpenAIService_def or_default_def)

section \<open>Model information\<close>

text \<open>
  Claim C10. The Anthropic adapter always reports \<open>supportsVision\<close> true; the OpenAI
  adapter reports true exactly when the bound model name contains \<open>gpt-4\<close> or equals
  \<open>gpt-4o\<close>, so false for \<open>gpt-3.5-turbo\<close>; a call leaves the instance as it was, so a
  repeated call returns the same result.
\<close>

theorem getModelInfo_supportsVision:
  "supportsVision (getModelInfo (AnthropicService c m))
   \<and> (supportsVision (getModelInfo (OpenAIService c m))
        \<longleftrightarrow> sublist ''gpt-4'' m \<or> m = ''gpt-4o'')
   \<and> \<not> supportsVision (getModelInfo (OpenAIService c ''gpt-3.5-turbo''))
   \<and> snd (call_getModelInfo s) = s
   \<and> fst (call_getModelInfo (snd (call_getModelInfo s))) = fst (call_getModelInfo s)"
  by (simp add: str_includes_sublist [symmetric] call_getModelInfo_def)

theorem getModelInfo_supportsVision_witness:
  "supportsVision (getModelInfo (OpenAIService demo_client ''gpt-4-turbo''))
   \<and> \<not> supportsVision (getModelInfo (OpenAIService demo_client ''gpt-3.5-turbo''))
   \<and> supportsVision (getModelInfo (AnthropicService demo_client ''claude-sonnet-4-20250514''))"
  using getModelInfo_supportsVision [of demo_client "''gpt-4-turbo''"]
    getModelInfo_supportsVision [of demo_client "''claude-sonnet-4-20250514''"]
  by simp

end
